theory Spec2Isabelle
  imports Main
begin

section \<open>The message graph of \<^verbatim>\<open>graph/graph.go\<close>\<close>

subsection \<open>Errors\<close>

text \<open>
  Go error values.  The three package-level sentinels of \<^verbatim>\<open>graph.go\<close> are constructors of
  their own, so that they are distinct from every error made elsewhere (in Go they are distinct
  pointers).  \<open>ErrorNew s\<close> is \<^verbatim>\<open>errors.New(s)\<close> called outside the package (by a node function);
  \<open>Errorf s e\<close> is the value of a \<^verbatim>\<open>fmt.Errorf\<close> call whose format has one \<^verbatim>\<open>%w\<close> verb: \<open>s\<close> is
  the formatted text and \<open>e\<close> the wrapped error.
\<close>

datatype error =
    ErrEntryPointNotSet
  | ErrNodeNotFound
  | ErrNoOutgoingEdge
  | ErrorNew string
  | Errorf string error

text \<open>The \<^verbatim>\<open>Error()\<close> method: the text of an error.\<close>

fun Error :: "error \<Rightarrow> string" where
  "Error ErrEntryPointNotSet = ''entry point not set''"
| "Error ErrNodeNotFound = ''node not found''"
| "Error ErrNoOutgoingEdge = ''no outgoing edge found for node''"
| "Error (ErrorNew s) = s"
| "Error (Errorf s e) = s"

subsection \<open>State values\<close>

text \<open>
  The state threaded through a graph is a Go slice \<^verbatim>\<open>[]llms.MessageContent\<close>.  The element
  type belongs to another module and is a type parameter \<open>'m\<close> here.  A slice is either \<^verbatim>\<open>nil\<close>
  or holds a list of elements; \<^verbatim>\<open>append\<close> on \<^verbatim>\<open>nil\<close> gives a slice that is not \<^verbatim>\<open>nil\<close>.
\<close>

datatype 'm slice = NilSlice | Slice "'m list"

fun elems :: "'m slice \<Rightarrow> 'm list" where
  "elems NilSlice = []"
| "elems (Slice xs) = xs"

definition append_slice :: "'m slice \<Rightarrow> 'm \<Rightarrow> 'm slice" where
  "append_slice s x = Slice (elems s @ [x])"

subsection \<open>Nodes, edges and the graph under construction\<close>

definition END :: string where
  "END = ''END''"

text \<open>
  A node function takes the context (type \<open>'c\<close>, passed on unchanged by the engine) and the
  state, and returns Go's pair of a state and an error; \<open>None\<close> is the \<^verbatim>\<open>nil\<close> error.  Node
  functions are taken to be functions of their two arguments.
\<close>

type_synonym ('c, 'm) node_fn = "'c \<Rightarrow> 'm slice \<Rightarrow> 'm slice \<times> error option"

record ('c, 'm) Node =
  Name :: string
  Function :: "('c, 'm) node_fn"

record Edge =
  From :: string
  To :: string

record ('c, 'm) MessageGraph =
  nodes :: "string \<rightharpoonup> ('c, 'm) Node"
  edges :: "Edge list"
  entryPoint :: string

definition NewMessageGraph :: "('c, 'm) MessageGraph" where
  "NewMessageGraph = \<lparr>nodes = Map.empty, edges = [], entryPoint = ''''\<rparr>"

text \<open>The builder methods have a pointer receiver; each returns the receiver as it has become.\<close>

definition AddNode ::
  "('c, 'm) MessageGraph \<Rightarrow> string \<Rightarrow> ('c, 'm) node_fn \<Rightarrow> ('c, 'm) MessageGraph" where
  "AddNode g name fn = g\<lparr>nodes := (nodes g)(name \<mapsto> \<lparr>Name = name, Function = fn\<rparr>)\<rparr>"

definition AddEdge :: "('c, 'm) MessageGraph \<Rightarrow> string \<Rightarrow> string \<Rightarrow> ('c, 'm) MessageGraph" where
  "AddEdge g from to = g\<lparr>edges := edges g @ [\<lparr>From = from, To = to\<rparr>]\<rparr>"

definition SetEntryPoint :: "('c, 'm) MessageGraph \<Rightarrow> string \<Rightarrow> ('c, 'm) MessageGraph" where
  "SetEntryPoint g name = g\<lparr>entryPoint := name\<rparr>"

subsection \<open>Compile\<close>

text \<open>
  A \<open>Runnable\<close> holds the graph it was compiled from.  \<open>Compile\<close> returns Go's pair of a
  pointer and an error: \<open>None\<close> in the first component is the \<^verbatim>\<open>nil\<close> pointer.
\<close>

record ('c, 'm) Runnable =
  graph :: "('c, 'm) MessageGraph"

definition Compile :: "('c, 'm) MessageGraph \<Rightarrow> ('c, 'm) Runnable option \<times> error option" where
  "Compile g =
     (if entryPoint g = '''' then (None, Some ErrEntryPointNotSet)
      else (Some \<lparr>graph = g\<rparr>, None))"

subsection \<open>Invoke\<close>

text \<open>
  What a call of \<open>Invoke\<close> leaves behind: the two values it returns, the calls it made to node
  functions (the node's name and the state passed, in order), and the receiver after the call.
\<close>

type_synonym 'm call_log = "(string \<times> 'm slice) list"

record ('c, 'm) outcome =
  ret_state :: "'m slice"
  ret_err :: "error option"
  calls :: "'m call_log"
  receiver :: "('c, 'm) Runnable"

text \<open>
  The inner \<^verbatim>\<open>for _, edge := range r.graph.edges\<close> loop: it returns the two variables it may
  assign, \<^verbatim>\<open>currentNode\<close> and \<^verbatim>\<open>foundNext\<close>.
\<close>

fun scan_edges :: "Edge list \<Rightarrow> string \<Rightarrow> string \<times> bool" where
  "scan_edges [] currentNode = (currentNode, False)"
| "scan_edges (edge # rest) currentNode =
     (if From edge = currentNode then (To edge, True) else scan_edges rest currentNode)"

text \<open>
  One pass through the body of the outer \<^verbatim>\<open>for\<close> loop, from the loop variables \<^verbatim>\<open>state\<close> and
  \<^verbatim>\<open>currentNode\<close>: it either goes round again with new values of the two or leaves \<open>Invoke\<close>
  (by one of the three \<^verbatim>\<open>return nil, ...\<close> statements, or by \<^verbatim>\<open>break\<close> and the final
  \<^verbatim>\<open>return state, nil\<close>).
\<close>

datatype ('c, 'm) iteration =
    Continue "'m slice" string "'m call_log"
  | Return "('c, 'm) outcome"

definition loop_body ::
  "('c, 'm) Runnable \<Rightarrow> 'c \<Rightarrow> 'm slice \<Rightarrow> string \<Rightarrow> 'm call_log \<Rightarrow> ('c, 'm) iteration" where
  "loop_body r ctx state currentNode log =
     (case nodes (graph r) currentNode of
        None \<Rightarrow>
          Return \<lparr>ret_state = NilSlice,
                  ret_err = Some (Errorf (Error ErrNodeNotFound @ '': '' @ currentNode) ErrNodeNotFound),
                  calls = log, receiver = r\<rparr>
      | Some node \<Rightarrow>
          (case Function node ctx state of
             (state', err) \<Rightarrow>
               (let log' = log @ [(currentNode, state)] in
                case err of
                  Some e \<Rightarrow>
                    Return \<lparr>ret_state = NilSlice,
                            ret_err = Some (Errorf (''error in node '' @ currentNode @ '': '' @ Error e) e),
                            calls = log', receiver = r\<rparr>
                | None \<Rightarrow>
                    if currentNode = END
                    then Return \<lparr>ret_state = state', ret_err = None, calls = log', receiver = r\<rparr>
                    else
                      (case scan_edges (edges (graph r)) currentNode of
                         (currentNode', foundNext) \<Rightarrow>
                           if \<not> foundNext
                           then Return \<lparr>ret_state = NilSlice,
                                        ret_err = Some (Errorf (Error ErrNoOutgoingEdge @ '': '' @ currentNode')
                                                          ErrNoOutgoingEdge),
                                        calls = log', receiver = r\<rparr>
                           else Continue state' currentNode' log'))))"

text \<open>The outer loop has no bound: a graph with a cycle that avoids \<open>END\<close> never returns.\<close>

partial_function (option) invoke_loop ::
  "('c, 'm) Runnable \<Rightarrow> 'c \<Rightarrow> 'm slice \<Rightarrow> string \<Rightarrow> 'm call_log \<Rightarrow> ('c, 'm) outcome option" where
  "invoke_loop r ctx state currentNode log =
     (case loop_body r ctx state currentNode log of
        Return out \<Rightarrow> Some out
      | Continue state' currentNode' log' \<Rightarrow> invoke_loop r ctx state' currentNode' log')"

definition Invoke :: "('c, 'm) Runnable \<Rightarrow> 'c \<Rightarrow> 'm slice \<Rightarrow> ('c, 'm) outcome option" where
  "Invoke r ctx messages = invoke_loop r ctx messages (entryPoint (graph r)) []"

text \<open>
  The loop variables at the start of the \<open>k\<close>-th pass of a call \<open>Invoke r ctx messages\<close>
  (with the calls made so far), if the call gets that far.
\<close>

fun pass :: "('c, 'm) Runnable \<Rightarrow> 'c \<Rightarrow> 'm slice \<Rightarrow> nat \<Rightarrow> ('m slice \<times> string \<times> 'm call_log) option" where
  "pass r ctx messages 0 = Some (messages, entryPoint (graph r), [])"
| "pass r ctx messages (Suc k) =
     (case pass r ctx messages k of
        None \<Rightarrow> None
      | Some (state, currentNode, log) \<Rightarrow>
          (case loop_body r ctx state currentNode log of
             Return out \<Rightarrow> None
           | Continue state' currentNode' log' \<Rightarrow> Some (state', currentNode', log')))"

subsection \<open>Builders as sequences of method calls\<close>

text \<open>
  A builder is what a sequence of calls of \<open>AddNode\<close>, \<open>AddEdge\<close> and \<open>SetEntryPoint\<close> makes
  of \<open>NewMessageGraph\<close>.  \<open>recorded\<close> is the name passed to the last call of \<open>SetEntryPoint\<close>
  in the sequence, \<open>None\<close> when there is no such call.
\<close>

datatype ('c, 'm) builder_call =
    CallAddNode string "('c, 'm) node_fn"
  | CallAddEdge string string
  | CallSetEntryPoint string

fun apply_call :: "('c, 'm) MessageGraph \<Rightarrow> ('c, 'm) builder_call \<Rightarrow> ('c, 'm) MessageGraph" where
  "apply_call g (CallAddNode name fn) = AddNode g name fn"
| "apply_call g (CallAddEdge from to) = AddEdge g from to"
| "apply_call g (CallSetEntryPoint name) = SetEntryPoint g name"

definition build :: "('c, 'm) builder_call list \<Rightarrow> ('c, 'm) MessageGraph" where
  "build cs = foldl apply_call NewMessageGraph cs"

fun recorded_in :: "string option \<Rightarrow> ('c, 'm) builder_call list \<Rightarrow> string option" where
  "recorded_in cur [] = cur"
| "recorded_in cur (CallSetEntryPoint name # cs) = recorded_in (Some name) cs"
| "recorded_in cur (c # cs) = recorded_in cur cs"

definition recorded :: "('c, 'm) builder_call list \<Rightarrow> string option" where
  "recorded cs = recorded_in None cs"

subsection \<open>The messages and node functions of the package's tests\<close>

text \<open>
  The tests build states with \<^verbatim>\<open>llms.TextParts(role, text)\<close>, a message of one text part.
  The message type is declared in another module; this is the part of it the tests use.
\<close>

datatype ChatMessageType = ChatMessageTypeAI | ChatMessageTypeHuman | ChatMessageTypeTool

datatype ContentPart = TextContent string | OtherContent

record MessageContent =
  Role :: ChatMessageType
  Parts :: "ContentPart list"

definition TextParts :: "ChatMessageType \<Rightarrow> string \<Rightarrow> MessageContent" where
  "TextParts role text = \<lparr>Role = role, Parts = [TextContent text]\<rparr>"

text \<open>
  The node functions of the tests:
  \<^verbatim>\<open>return state, nil\<close>,
  \<^verbatim>\<open>return append(state, llms.TextParts(role, text)), nil\<close> and
  \<^verbatim>\<open>return nil, errors.New(text)\<close>.
\<close>

definition passthrough :: "('c, 'm) node_fn" where
  "passthrough ctx state = (state, None)"

definition appends :: "ChatMessageType \<Rightarrow> string \<Rightarrow> ('c, MessageContent) node_fn" where
  "appends role text ctx state = (append_slice state (TextParts role text), None)"

definition fails :: "string \<Rightarrow> ('c, 'm) node_fn" where
  "fails text ctx state = (NilSlice, Some (ErrorNew text))"

subsection \<open>Paths and compositions\<close>

text \<open>
  The path obtained by following edges: \<open>follows es p\<close> holds when \<open>p\<close> ends with \<open>END\<close>,
  has \<open>END\<close> nowhere else, and each name in it is followed by the \<open>To\<close> of the edge
  registered first among those that leave the name.
\<close>

fun follows :: "Edge list \<Rightarrow> string list \<Rightarrow> bool" where
  "follows es [] = False"
| "follows es [x] = (x = END)"
| "follows es (x # y # p) =
     (x \<noteq> END \<and>
      (case find (\<lambda>e. From e = x) es of None \<Rightarrow> False | Some e \<Rightarrow> To e = y) \<and>
      follows es (y # p))"

text \<open>
  The left-to-right composition of the functions of the nodes named by a path, applied to a
  state: defined when every name is registered and every function returns no error.
\<close>

fun compose_functions ::
  "(string \<rightharpoonup> ('c, 'm) Node) \<Rightarrow> 'c \<Rightarrow> string list \<Rightarrow> 'm slice \<Rightarrow> 'm slice option" where
  "compose_functions ns ctx [] state = Some state"
| "compose_functions ns ctx (x # p) state =
     (case ns x of
        None \<Rightarrow> None
      | Some node \<Rightarrow>
          (case Function node ctx state of
             (state', None) \<Rightarrow> compose_functions ns ctx p state'
           | (state', Some e) \<Rightarrow> None))"

subsection \<open>The graphs of the package's tests\<close>

text \<open>
  The builders of the table in \<^verbatim>\<open>TestMessageGraph\<close>, as the calls each \<^verbatim>\<open>buildGraph\<close> makes:
  ``Simple graph'', ``Node not found'', ``No outgoing edge'' and ``Error in node function''.
  The tests pass \<^verbatim>\<open>context.Background()\<close>; the context type is \<open>unit\<close> here.
\<close>

definition test_simple_graph :: "(unit, MessageContent) builder_call list" where
  "test_simple_graph =
     [CallAddNode ''node1'' (appends ChatMessageTypeAI ''Node 1''),
      CallAddNode ''node2'' (appends ChatMessageTypeAI ''Node 2''),
      CallAddEdge ''node1'' ''node2'',
      CallAddEdge ''node2'' END,
      CallSetEntryPoint ''node1'']"

definition test_node_not_found :: "(unit, MessageContent) builder_call list" where
  "test_node_not_found =
     [CallAddNode ''node1'' passthrough,
      CallAddEdge ''node1'' ''node2'',
      CallSetEntryPoint ''node1'']"

definition test_no_outgoing_edge :: "(unit, MessageContent) builder_call list" where
  "test_no_outgoing_edge =
     [CallAddNode ''node1'' passthrough,
      CallSetEntryPoint ''node1'']"

definition test_error_in_node :: "(unit, MessageContent) builder_call list" where
  "test_error_in_node =
     [CallAddNode ''node1'' (fails ''node error''),
      CallAddEdge ''node1'' END,
      CallSetEntryPoint ''node1'']"

text \<open>
  Further graphs: the first with a node registered under \<open>END\<close> (as in
  \<^verbatim>\<open>ExampleMessageGraph\<close>, which registers a passthrough there), the second with a node under
  \<open>END\<close> that appends a message and an edge that leaves \<open>END\<close>, the third with two edges out
  of one node.
\<close>

definition linear_graph :: "(unit, MessageContent) builder_call list" where
  "linear_graph =
     [CallAddNode ''n1'' (appends ChatMessageTypeAI ''Node 1''),
      CallAddNode ''n2'' (appends ChatMessageTypeAI ''Node 2''),
      CallAddNode END passthrough,
      CallAddEdge ''n1'' ''n2'',
      CallAddEdge ''n2'' END,
      CallSetEntryPoint ''n1'']"

definition end_edge_graph :: "(unit, MessageContent) builder_call list" where
  "end_edge_graph =
     [CallAddNode ''n1'' (appends ChatMessageTypeAI ''Node 1''),
      CallAddNode END (appends ChatMessageTypeAI ''Done''),
      CallAddEdge END ''n1'',
      CallAddEdge ''n1'' END,
      CallSetEntryPoint ''n1'']"

definition two_edges_graph :: "(unit, MessageContent) builder_call list" where
  "two_edges_graph =
     [CallAddNode ''n1'' (appends ChatMessageTypeAI ''Node 1''),
      CallAddNode ''n2'' (appends ChatMessageTypeAI ''Node 2''),
      CallAddNode ''n3'' (appends ChatMessageTypeAI ''Node 3''),
      CallAddNode END passthrough,
      CallAddEdge ''n2'' END,
      CallAddEdge ''n1'' ''n2'',
      CallAddEdge ''n1'' ''n3'',
      CallAddEdge ''n3'' END,
      CallSetEntryPoint ''n1'']"

definition input :: "MessageContent slice" where
  "input = Slice [TextParts ChatMessageTypeHuman ''Input'']"

section \<open>Conditional edges\<close>

text \<open>
  \<^verbatim>\<open>graph.go\<close> declares an edge as two strings and has no method \<^verbatim>\<open>AddConditionalEdge\<close>, while
  the test ``Conditional edge - condition for edge fulfilled'' of the package calls
  \<^verbatim>\<open>g.AddConditionalEdge("node1", fn)\<close>.  The builder with conditional edges and its execution
  are therefore taken from the specification (sections 3, 4.1, 4.3 and 8), beside the model of
  \<^verbatim>\<open>graph.go\<close> above.
\<close>

text \<open>
  Modelled from the spec: the target of an edge (section 3), missing from \<^verbatim>\<open>graph.go\<close>: either
  a static target, a fixed node name, or a conditional target, a routing function from the
  context and the state to the name of the next node.
\<close>

datatype ('c, 'm) target =
    Static string
  | Conditional "'c \<Rightarrow> 'm slice \<Rightarrow> string"

text \<open>
  Modelled from the spec: the edge (section 3) with such a target, missing from \<^verbatim>\<open>graph.go\<close>.
\<close>

record ('c, 'm) edge_def =
  edge_From :: string
  edge_To :: "('c, 'm) target"

text \<open>
  Modelled from the spec: the GraphBuilder (sections 2 and 3) over such edges, missing from
  \<^verbatim>\<open>graph.go\<close>: named nodes, edges in registration order, and the entry node.
\<close>

record ('c, 'm) GraphBuilder =
  builder_nodes :: "string \<rightharpoonup> ('c, 'm) Node"
  builder_edges :: "('c, 'm) edge_def list"
  builder_entryPoint :: string









text \<open>
  Modelled from the spec: the failures of an execution (section 7), for the execution with
  conditional edges that is missing from \<^verbatim>\<open>graph.go\<close>: each carries the offending node name,
  \<open>NodeExecutionError\<close> the underlying error as well.
\<close>

datatype failure =
    NodeNotFound string
  | NoOutgoingEdge string
  | NodeExecutionError string error

text \<open>
  Modelled from the spec: the scan of step 2e of section 4.3 (missing from \<^verbatim>\<open>graph.go\<close>) for
  the conditional edges: the routing function of the first conditional edge, in registration
  order, whose \<open>From\<close> is \<open>current\<close>.
\<close>

fun first_conditional ::
  "('c, 'm) edge_def list \<Rightarrow> string \<Rightarrow> ('c \<Rightarrow> 'm slice \<Rightarrow> string) option" where
  "first_conditional [] current = None"
| "first_conditional (edge # rest) current =
     (if edge_From edge = current
      then (case edge_To edge of
              Conditional routingFn \<Rightarrow> Some routingFn
            | Static to \<Rightarrow> first_conditional rest current)
      else first_conditional rest current)"

text \<open>
  Modelled from the spec: the scan of step 2e of section 4.3 (missing from \<^verbatim>\<open>graph.go\<close> for
  edges with targets) for the static edges: the \<open>To\<close> of the first static edge, in
  registration order, whose \<open>From\<close> is \<open>current\<close>.
\<close>

fun first_static :: "('c, 'm) edge_def list \<Rightarrow> string \<Rightarrow> string option" where
  "first_static [] current = None"
| "first_static (edge # rest) current =
     (if edge_From edge = current
      then (case edge_To edge of
              Static to \<Rightarrow> Some to
            | Conditional routingFn \<Rightarrow> first_static rest current)
      else first_static rest current)"

text \<open>
  Modelled from the spec: step 2e of section 4.3, the resolution of the outgoing edge of
  \<open>current\<close> where edges may be conditional (missing from \<^verbatim>\<open>graph.go\<close>), with the rule of
  section 8 for a node that has edges of both kinds (``if both were mistakenly present,
  conditional must take precedence''): a conditional edge out of \<open>current\<close> gives the result
  of its routing function on the state; with no conditional edge, a static edge out of
  \<open>current\<close> gives its \<open>To\<close>; each kind is scanned in registration order and the first match
  taken; \<open>None\<close> when no edge leaves \<open>current\<close>.
\<close>

definition resolve_edge :: "('c, 'm) edge_def list \<Rightarrow> 'c \<Rightarrow> 'm slice \<Rightarrow> string \<Rightarrow> string option" where
  "resolve_edge es ctx state current =
     (case first_conditional es current of
        Some routingFn \<Rightarrow> Some (routingFn ctx state)
      | None \<Rightarrow> first_static es current)"

text \<open>
  Modelled from the spec: what one step of the loop of section 4.3 leads to, for the execution
  with conditional edges that is missing from \<^verbatim>\<open>graph.go\<close>: the next step, from a state and a
  current node, or the end of the invocation with a final state or a failure.  The calls made
  to node functions are kept as for \<open>Invoke\<close> above.
\<close>

datatype 'm step =
    Next "'m slice" string "'m call_log"
  | Finished "'m slice" "'m call_log"
  | Failed failure "'m call_log"

text \<open>
  Modelled from the spec: steps 2a to 2f of section 4.3 with conditional edges (missing from
  \<^verbatim>\<open>graph.go\<close>).  The routing function is given the state that the node's function returned.
\<close>

definition execution_step ::
  "('c, 'm) GraphBuilder \<Rightarrow> 'c \<Rightarrow> 'm slice \<Rightarrow> string \<Rightarrow> 'm call_log \<Rightarrow> 'm step" where
  "execution_step b ctx state current log =
     (case builder_nodes b current of
        None \<Rightarrow> Failed (NodeNotFound current) log
      | Some node \<Rightarrow>
          (case Function node ctx state of
             (returnedState, Some underlyingError) \<Rightarrow>
               Failed (NodeExecutionError current underlyingError) (log @ [(current, state)])
           | (returnedState, None) \<Rightarrow>
               if current = END then Finished returnedState (log @ [(current, state)])
               else
                 (case resolve_edge (builder_edges b) ctx returnedState current of
                    None \<Rightarrow> Failed (NoOutgoingEdge current) (log @ [(current, state)])
                  | Some next \<Rightarrow> Next returnedState next (log @ [(current, state)]))))"

text \<open>
  Modelled from the spec: the loop of section 4.3 with conditional edges (missing from
  \<^verbatim>\<open>graph.go\<close>); it has no bound on the number of steps.
\<close>

partial_function (option) execution_loop ::
  "('c, 'm) GraphBuilder \<Rightarrow> 'c \<Rightarrow> 'm slice \<Rightarrow> string \<Rightarrow> 'm call_log \<Rightarrow> 'm step option" where
  "execution_loop b ctx state current log =
     (case execution_step b ctx state current log of
        Next state' current' log' \<Rightarrow> execution_loop b ctx state' current' log'
      | Finished state' log' \<Rightarrow> Some (Finished state' log')
      | Failed f log' \<Rightarrow> Some (Failed f log'))"

text \<open>
  Modelled from the spec: \<open>Invoke(ctx, initialState)\<close> of section 4.3 on a graph with
  conditional edges (missing from \<^verbatim>\<open>graph.go\<close>): step 1, then the loop.
\<close>

definition execution :: "('c, 'm) GraphBuilder \<Rightarrow> 'c \<Rightarrow> 'm slice \<Rightarrow> 'm step option" where
  "execution b ctx initialState = execution_loop b ctx initialState (builder_entryPoint b) []"


subsection \<open>The graphs of \<^verbatim>\<open>graph.go\<close> among the graphs with conditional edges\<close>

text \<open>
  A graph of \<^verbatim>\<open>graph.go\<close> read as a graph of the specification: every edge is a static edge.
  \<open>failure_error\<close> is the error value by which \<open>Invoke\<close> of \<^verbatim>\<open>graph.go\<close> reports a failure,
  and \<open>as_iteration\<close> reads a step of the specification's loop as a pass of \<open>Invoke\<close>'s loop.
\<close>

definition as_builder :: "('c, 'm) MessageGraph \<Rightarrow> ('c, 'm) GraphBuilder" where
  "as_builder g =
     \<lparr>builder_nodes = nodes g,
      builder_edges = map (\<lambda>e. \<lparr>edge_From = From e, edge_To = Static (To e)\<rparr>) (edges g),
      builder_entryPoint = entryPoint g\<rparr>"

fun failure_error :: "failure \<Rightarrow> error" where
  "failure_error (NodeNotFound name) = Errorf (Error ErrNodeNotFound @ '': '' @ name) ErrNodeNotFound"
| "failure_error (NoOutgoingEdge name) =
     Errorf (Error ErrNoOutgoingEdge @ '': '' @ name) ErrNoOutgoingEdge"
| "failure_error (NodeExecutionError name e) =
     Errorf (''error in node '' @ name @ '': '' @ Error e) e"

fun as_outcome :: "('c, 'm) Runnable \<Rightarrow> 'm step \<Rightarrow> ('c, 'm) outcome option" where
  "as_outcome r (Next state current log) = None"
| "as_outcome r (Finished state log) =
     Some \<lparr>ret_state = state, ret_err = None, calls = log, receiver = r\<rparr>"
| "as_outcome r (Failed f log) =
     Some \<lparr>ret_state = NilSlice, ret_err = Some (failure_error f), calls = log, receiver = r\<rparr>"

fun as_iteration :: "('c, 'm) Runnable \<Rightarrow> 'm step \<Rightarrow> ('c, 'm) iteration" where
  "as_iteration r (Next state current log) = Continue state current log"
| "as_iteration r (Finished state log) =
     Return \<lparr>ret_state = state, ret_err = None, calls = log, receiver = r\<rparr>"
| "as_iteration r (Failed f log) =
     Return \<lparr>ret_state = NilSlice, ret_err = Some (failure_error f), calls = log, receiver = r\<rparr>"

subsection \<open>The graph of the test with a conditional edge\<close>





section \<open>Properties\<close>

subsection \<open>The loop, pass by pass\<close>

lemma invoke_loop_Return:
  "loop_body r ctx state currentNode log = Return out \<Longrightarrow>
   invoke_loop r ctx state currentNode log = Some out"
  by (subst invoke_loop.simps) simp

lemma invoke_loop_Continue:
  "loop_body r ctx state currentNode log = Continue state' currentNode' log' \<Longrightarrow>
   invoke_loop r ctx state currentNode log = invoke_loop r ctx state' currentNode' log'"
  by (subst invoke_loop.simps) simp

lemma Invoke_pass:
  "pass r ctx messages k = Some (state, currentNode, log) \<Longrightarrow>
   Invoke r ctx messages = invoke_loop r ctx state currentNode log"
proof (induction k arbitrary: state currentNode log)
  case 0
  then show ?case by (simp add: Invoke_def)
next
  case (Suc k)
  from Suc.prems obtain s c l where
    prev: "pass r ctx messages k = Some (s, c, l)" and
    body: "loop_body r ctx s c l = Continue state currentNode log"
    by (auto split: option.splits iteration.splits)
  from Suc.IH [OF prev] invoke_loop_Continue [OF body] show ?case by simp
qed

subsection \<open>Edge resolution\<close>

lemma scan_edges_none:
  "\<forall>e \<in> set es. From e \<noteq> currentNode \<Longrightarrow> scan_edges es currentNode = (currentNode, False)"
  by (induction es) auto

lemma scan_edges_first:
  "\<forall>e' \<in> set es1. From e' \<noteq> From e \<Longrightarrow> scan_edges (es1 @ e # es2) (From e) = (To e, True)"
  by (induction es1) auto

lemma scan_edges_find:
  "scan_edges es currentNode =
     (case find (\<lambda>e. From e = currentNode) es of
        None \<Rightarrow> (currentNode, False)
      | Some e \<Rightarrow> (To e, True))"
  by (induction es) auto

subsection \<open>The branches of the loop body\<close>

lemma loop_body_not_found:
  "nodes (graph r) currentNode = None \<Longrightarrow>
   loop_body r ctx state currentNode log =
     Return \<lparr>ret_state = NilSlice,
             ret_err = Some (Errorf (''node not found: '' @ currentNode) ErrNodeNotFound),
             calls = log, receiver = r\<rparr>"
  by (simp add: loop_body_def)

lemma loop_body_error:
  "nodes (graph r) currentNode = Some node \<Longrightarrow> Function node ctx state = (state', Some e) \<Longrightarrow>
   loop_body r ctx state currentNode log =
     Return \<lparr>ret_state = NilSlice,
             ret_err = Some (Errorf (''error in node '' @ currentNode @ '': '' @ Error e) e),
             calls = log @ [(currentNode, state)], receiver = r\<rparr>"
  by (simp add: loop_body_def)

lemma loop_body_END:
  "nodes (graph r) END = Some node \<Longrightarrow> Function node ctx state = (state', None) \<Longrightarrow>
   loop_body r ctx state END log =
     Return \<lparr>ret_state = state', ret_err = None, calls = log @ [(END, state)], receiver = r\<rparr>"
  by (simp add: loop_body_def)

lemma loop_body_dead_end:
  "nodes (graph r) currentNode = Some node \<Longrightarrow> Function node ctx state = (state', None) \<Longrightarrow>
   currentNode \<noteq> END \<Longrightarrow> scan_edges (edges (graph r)) currentNode = (currentNode', False) \<Longrightarrow>
   loop_body r ctx state currentNode log =
     Return \<lparr>ret_state = NilSlice,
             ret_err = Some (Errorf (''no outgoing edge found for node: '' @ currentNode') ErrNoOutgoingEdge),
             calls = log @ [(currentNode, state)], receiver = r\<rparr>"
  by (simp add: loop_body_def)

lemma loop_body_next:
  "nodes (graph r) currentNode = Some node \<Longrightarrow> Function node ctx state = (state', None) \<Longrightarrow>
   currentNode \<noteq> END \<Longrightarrow> scan_edges (edges (graph r)) currentNode = (currentNode', True) \<Longrightarrow>
   loop_body r ctx state currentNode log = Continue state' currentNode' (log @ [(currentNode, state)])"
  by (simp add: loop_body_def)

subsection \<open>Builders\<close>

lemma recorded_in_Some:
  "recorded_in (Some name) cs = (case recorded_in None cs of None \<Rightarrow> Some name | Some name' \<Rightarrow> Some name')"
proof (induction cs arbitrary: name)
  case Nil
  then show ?case by simp
next
  case (Cons c cs)
  show ?case
  proof (cases c)
    case (CallSetEntryPoint name')
    with Cons.IH [of name'] show ?thesis by (simp split: option.splits)
  qed (use Cons.IH in simp_all)
qed

lemma entryPoint_foldl:
  "entryPoint (foldl apply_call g cs) =
     (case recorded_in None cs of None \<Rightarrow> entryPoint g | Some name \<Rightarrow> name)"
proof (induction cs arbitrary: g)
  case Nil
  then show ?case by simp
next
  case (Cons c cs)
  show ?case
  proof (cases c)
    case (CallAddNode name fn)
    with Cons.IH [of "AddNode g name fn"] show ?thesis by (simp add: AddNode_def split: option.splits)
  next
    case (CallAddEdge a b)
    with Cons.IH [of "AddEdge g a b"] show ?thesis by (simp add: AddEdge_def split: option.splits)
  next
    case (CallSetEntryPoint name)
    with Cons.IH [of "SetEntryPoint g name"] show ?thesis
      by (simp add: SetEntryPoint_def recorded_in_Some split: option.splits)
  qed
qed

lemma entryPoint_build:
  "entryPoint (build cs) = (case recorded cs of None \<Rightarrow> '''' | Some name \<Rightarrow> name)"
  by (simp add: build_def recorded_def entryPoint_foldl NewMessageGraph_def split: option.splits)

section \<open>Compile\<close>

text \<open>
  C10: for every builder, \<open>SetEntryPoint\<close> with the empty string followed by \<open>Compile\<close>
  gives the error \<open>ErrEntryPointNotSet\<close> and the \<^verbatim>\<open>nil\<close> Runnable, as if no entry point had
  ever been set; so the graph of a Runnable that \<open>Compile\<close> returns never has the empty
  string as its entry point.
\<close>

theorem Compile_empty_entryPoint:
  "Compile (SetEntryPoint g '''') = (None, Some ErrEntryPointNotSet) \<and>
   Compile (SetEntryPoint g '''') = Compile (NewMessageGraph :: ('c, 'm) MessageGraph) \<and>
   (\<forall>r err. Compile (g' :: ('c, 'm) MessageGraph) = (Some r, err) \<longrightarrow> entryPoint (graph r) \<noteq> '''')"
  by (auto simp add: Compile_def SetEntryPoint_def NewMessageGraph_def split: if_splits)

theorem Compile_empty_entryPoint_witness:
  "Compile (SetEntryPoint (NewMessageGraph :: (unit, unit) MessageGraph) ''node1'')
     = (Some \<lparr>graph = SetEntryPoint NewMessageGraph ''node1''\<rparr>, None) \<and>
   entryPoint (graph \<lparr>graph = SetEntryPoint (NewMessageGraph :: (unit, unit) MessageGraph) ''node1''\<rparr>) \<noteq> '''' \<and>
   Compile (SetEntryPoint (SetEntryPoint (NewMessageGraph :: (unit, unit) MessageGraph) ''node1'') '''')
     = (None, Some ErrEntryPointNotSet)"
proof -
  let ?g = "SetEntryPoint (NewMessageGraph :: (unit, unit) MessageGraph) ''node1''"
  note inst = Compile_empty_entryPoint [where g = ?g and g' = ?g]
  have c: "Compile ?g = (Some \<lparr>graph = ?g\<rparr>, None)"
    by (simp add: Compile_def SetEntryPoint_def NewMessageGraph_def)
  from inst c have "entryPoint (graph \<lparr>graph = ?g\<rparr>) \<noteq> ''''" by blast
  with c inst show ?thesis by simp
qed

text \<open>
  C4, as stated, fails: a builder on which the empty string has been recorded as the entry
  point, here after registering a node of that name and an edge from it, does not compile.
\<close>

theorem Compile_recorded_counterexample:
  "recorded [CallAddNode '''' passthrough, CallAddEdge '''' END, CallSetEntryPoint ''''
             :: (unit, unit) builder_call] = Some '''' \<and>
   Compile (build [CallAddNode '''' passthrough, CallAddEdge '''' END, CallSetEntryPoint ''''
                   :: (unit, unit) builder_call]) = (None, Some ErrEntryPointNotSet)"
  by (simp add: recorded_def build_def Compile_def SetEntryPoint_def AddEdge_def AddNode_def
      NewMessageGraph_def)

text \<open>
  C4, amended: for every builder on which no entry point has been recorded, \<open>Compile\<close> returns
  the error \<open>ErrEntryPointNotSet\<close> and the \<^verbatim>\<open>nil\<close> Runnable; for every builder on which the
  entry point last recorded is a non-empty name, \<open>Compile\<close> returns a Runnable holding the
  builder's graph and no error, whatever nodes and edges the builder has (nothing else is
  validated).
\<close>

theorem Compile_entryPoint:
  "(recorded cs = None \<longrightarrow> Compile (build cs) = (None, Some ErrEntryPointNotSet)) \<and>
   (\<forall>name. recorded cs = Some name \<and> name \<noteq> '''' \<longrightarrow>
      Compile (build cs) = (Some \<lparr>graph = build cs\<rparr>, None))"
  by (simp add: Compile_def entryPoint_build)

theorem Compile_entryPoint_witness:
  "recorded [CallAddNode ''node1'' passthrough :: (unit, unit) builder_call] = None \<and>
   Compile (build [CallAddNode ''node1'' passthrough :: (unit, unit) builder_call])
     = (None, Some ErrEntryPointNotSet) \<and>
   recorded [CallAddNode ''node1'' passthrough, CallAddEdge ''node1'' ''node2'',
             CallSetEntryPoint ''node1'' :: (unit, unit) builder_call] = Some ''node1'' \<and>
   ''node1'' \<noteq> '''' \<and>
   Compile (build [CallAddNode ''node1'' passthrough, CallAddEdge ''node1'' ''node2'',
                   CallSetEntryPoint ''node1'' :: (unit, unit) builder_call])
     = (Some \<lparr>graph = build [CallAddNode ''node1'' passthrough, CallAddEdge ''node1'' ''node2'',
                              CallSetEntryPoint ''node1'']\<rparr>, None)"
proof -
  let ?cs1 = "[CallAddNode ''node1'' passthrough :: (unit, unit) builder_call]"
  let ?cs2 = "[CallAddNode ''node1'' passthrough, CallAddEdge ''node1'' ''node2'',
               CallSetEntryPoint ''node1'' :: (unit, unit) builder_call]"
  have r1: "recorded ?cs1 = None" by (simp add: recorded_def)
  have r2: "recorded ?cs2 = Some ''node1''" by (simp add: recorded_def)
  from Compile_entryPoint [of ?cs1] r1
  have c1: "Compile (build ?cs1) = (None, Some ErrEntryPointNotSet)" by blast
  from Compile_entryPoint [of ?cs2] r2
  have c2: "Compile (build ?cs2) = (Some \<lparr>graph = build ?cs2\<rparr>, None)" by simp
  from r1 r2 c1 c2 show ?thesis by simp
qed

section \<open>Invoke\<close>

subsection \<open>The receiver\<close>

lemma loop_body_receiver:
  "loop_body r ctx state currentNode log = Return out \<Longrightarrow> receiver out = r"
  by (auto simp add: loop_body_def Let_def split: option.splits prod.splits if_splits)

lemma invoke_loop_receiver:
  assumes "invoke_loop r ctx state currentNode log = Some out"
  shows "receiver out = r"
  using assms
proof (induction r ctx state currentNode log out rule: invoke_loop.raw_induct [rotated 1, consumes 1])
  case (1 loop r ctx state currentNode log out)
  show ?case
  proof (cases "loop_body r ctx state currentNode log")
    case (Continue state' currentNode' log')
    with 1 show ?thesis by simp
  next
    case (Return out')
    with 1 loop_body_receiver [OF Return] show ?thesis by simp
  qed
qed

text \<open>
  C9: a call of \<open>Invoke\<close> that returns, with a state or with an error, leaves the compiled graph
  as it was: the node map, the edge list and the entry point of the receiver are the same after
  the call as before, and a later call on the receiver behaves as a call on the original
  (cursor and state are local to one call).
\<close>

theorem Invoke_leaves_graph:
  "Invoke r ctx messages = Some out \<Longrightarrow>
   nodes (graph (receiver out)) = nodes (graph r) \<and>
   edges (graph (receiver out)) = edges (graph r) \<and>
   entryPoint (graph (receiver out)) = entryPoint (graph r) \<and>
   Invoke (receiver out) ctx' messages' = Invoke r ctx' messages'"
  using invoke_loop_receiver [of r ctx messages "entryPoint (graph r)" "[]" out]
  by (simp add: Invoke_def)

subsection \<open>The ways out of the loop\<close>

text \<open>
  C3: when the cursor is \<open>END\<close> at the start of a pass, and a node is registered under that
  name whose function succeeds on the current state, \<open>Invoke\<close> calls that function on the
  current state, makes no further call and returns the state the function produced, with no
  error.  Nothing is assumed of the edges: edges that leave \<open>END\<close> are not followed, and the
  pass ends the same way whatever edge list the graph has.
\<close>

theorem Invoke_END:
  "pass r ctx messages k = Some (state, END, log) \<Longrightarrow>
   nodes (graph r) END = Some node \<Longrightarrow>
   Function node ctx state = (state', None) \<Longrightarrow>
   Invoke r ctx messages =
     Some \<lparr>ret_state = state', ret_err = None, calls = log @ [(END, state)], receiver = r\<rparr> \<and>
   loop_body (r\<lparr>graph := (graph r)\<lparr>edges := es\<rparr>\<rparr>) ctx state END log =
     Return \<lparr>ret_state = state', ret_err = None, calls = log @ [(END, state)],
             receiver = r\<lparr>graph := (graph r)\<lparr>edges := es\<rparr>\<rparr>\<rparr>"
  by (simp add: Invoke_pass invoke_loop_Return loop_body_END)

text \<open>
  C5: when the function of the current node returns an error, \<open>Invoke\<close> returns the \<^verbatim>\<open>nil\<close>
  state and an error that wraps the function's error under a text naming the node; the failed
  call is the last call made to a node function, and the edges play no part in the pass (it
  ends the same way whatever edge list the graph has).
\<close>

theorem Invoke_node_error:
  "pass r ctx messages k = Some (state, currentNode, log) \<Longrightarrow>
   nodes (graph r) currentNode = Some node \<Longrightarrow>
   Function node ctx state = (state', Some e) \<Longrightarrow>
   Invoke r ctx messages =
     Some \<lparr>ret_state = NilSlice,
           ret_err = Some (Errorf (''error in node '' @ currentNode @ '': '' @ Error e) e),
           calls = log @ [(currentNode, state)], receiver = r\<rparr> \<and>
   loop_body (r\<lparr>graph := (graph r)\<lparr>edges := es\<rparr>\<rparr>) ctx state currentNode log =
     Return \<lparr>ret_state = NilSlice,
             ret_err = Some (Errorf (''error in node '' @ currentNode @ '': '' @ Error e) e),
             calls = log @ [(currentNode, state)],
             receiver = r\<lparr>graph := (graph r)\<lparr>edges := es\<rparr>\<rparr>\<rparr>"
  by (simp add: Invoke_pass invoke_loop_Return loop_body_error)

text \<open>
  C6: a graph with an entry point compiles whatever its nodes and edges are; when the cursor of
  a call of \<open>Invoke\<close> on it (the entry point at the first pass, the target of an edge later)
  is a name absent from the node map, \<open>END\<close> or any other, \<open>Invoke\<close> returns the \<^verbatim>\<open>nil\<close> state
  and the error \<open>ErrNodeNotFound\<close> wrapped under a text carrying that name, and makes no call
  to a node function in that pass.
\<close>

theorem Invoke_node_not_found:
  "entryPoint g \<noteq> '''' \<Longrightarrow>
   pass \<lparr>graph = g\<rparr> ctx messages k = Some (state, currentNode, log) \<Longrightarrow>
   nodes g currentNode = None \<Longrightarrow>
   Compile g = (Some \<lparr>graph = g\<rparr>, None) \<and>
   Invoke \<lparr>graph = g\<rparr> ctx messages =
     Some \<lparr>ret_state = NilSlice,
           ret_err = Some (Errorf (''node not found: '' @ currentNode) ErrNodeNotFound),
           calls = log, receiver = \<lparr>graph = g\<rparr>\<rparr>"
  by (simp add: Compile_def Invoke_pass invoke_loop_Return loop_body_not_found)

text \<open>
  C7: when the current node is not \<open>END\<close>, its function succeeds and no edge of the graph
  has it as \<open>From\<close>, \<open>Invoke\<close> returns the \<^verbatim>\<open>nil\<close> state and the error \<open>ErrNoOutgoingEdge\<close>
  wrapped under a text carrying the node's name; the call of the node's function is in the log,
  as the last one.
\<close>

theorem Invoke_no_outgoing_edge:
  "pass r ctx messages k = Some (state, currentNode, log) \<Longrightarrow>
   currentNode \<noteq> END \<Longrightarrow>
   nodes (graph r) currentNode = Some node \<Longrightarrow>
   Function node ctx state = (state', None) \<Longrightarrow>
   \<forall>e \<in> set (edges (graph r)). From e \<noteq> currentNode \<Longrightarrow>
   Invoke r ctx messages =
     Some \<lparr>ret_state = NilSlice,
           ret_err = Some (Errorf (''no outgoing edge found for node: '' @ currentNode) ErrNoOutgoingEdge),
           calls = log @ [(currentNode, state)], receiver = r\<rparr>"
  by (simp add: Invoke_pass invoke_loop_Return loop_body_dead_end scan_edges_none)

text \<open>
  C8: when several edges leave the current node, the next cursor is the \<open>To\<close> of the one
  registered first: with the edge list split at the first edge \<open>e\<close> whose \<open>From\<close> is the
  current node, the next pass starts at \<open>To e\<close>, whatever edges \<open>es2\<close> were registered after
  \<open>e\<close>.
\<close>

theorem Invoke_first_edge:
  "pass r ctx messages k = Some (state, currentNode, log) \<Longrightarrow>
   currentNode \<noteq> END \<Longrightarrow>
   nodes (graph r) currentNode = Some node \<Longrightarrow>
   Function node ctx state = (state', None) \<Longrightarrow>
   edges (graph r) = es1 @ e # es2 \<Longrightarrow>
   From e = currentNode \<Longrightarrow>
   \<forall>e' \<in> set es1. From e' \<noteq> currentNode \<Longrightarrow>
   pass r ctx messages (Suc k) = Some (state', To e, log @ [(currentNode, state)]) \<and>
   Invoke r ctx messages = invoke_loop r ctx state' (To e) (log @ [(currentNode, state)])"
proof -
  assume p: "pass r ctx messages k = Some (state, currentNode, log)"
    and "currentNode \<noteq> END" "nodes (graph r) currentNode = Some node"
    "Function node ctx state = (state', None)" "edges (graph r) = es1 @ e # es2"
    "From e = currentNode" "\<forall>e' \<in> set es1. From e' \<noteq> currentNode"
  then have "loop_body r ctx state currentNode log
               = Continue state' (To e) (log @ [(currentNode, state)])"
    using scan_edges_first [of es1 e es2] by (simp add: loop_body_next)
  with p have "pass r ctx messages (Suc k) = Some (state', To e, log @ [(currentNode, state)])"
    by simp
  with Invoke_pass [of r ctx messages "Suc k" state' "To e" "log @ [(currentNode, state)]"]
  show ?thesis by simp
qed

section \<open>The graphs of the tests, run\<close>

lemmas builder_defs =
  build_def AddNode_def AddEdge_def SetEntryPoint_def NewMessageGraph_def

lemmas node_fn_defs =
  appends_def passthrough_def fails_def append_slice_def TextParts_def input_def

lemma Invoke_linear_graph:
  "Invoke \<lparr>graph = build linear_graph\<rparr> () input =
     Some \<lparr>ret_state = Slice [TextParts ChatMessageTypeHuman ''Input'',
                              TextParts ChatMessageTypeAI ''Node 1'',
                              TextParts ChatMessageTypeAI ''Node 2''],
           ret_err = None,
           calls = [(''n1'', input),
                    (''n2'', append_slice input (TextParts ChatMessageTypeAI ''Node 1'')),
                    (END, append_slice (append_slice input (TextParts ChatMessageTypeAI ''Node 1''))
                            (TextParts ChatMessageTypeAI ''Node 2''))],
           receiver = \<lparr>graph = build linear_graph\<rparr>\<rparr>"
  by (simp add: Invoke_def linear_graph_def builder_defs node_fn_defs invoke_loop.simps
      loop_body_def END_def)

lemma Invoke_test_error_in_node:
  "Invoke \<lparr>graph = build test_error_in_node\<rparr> () input =
     Some \<lparr>ret_state = NilSlice,
           ret_err = Some (Errorf ''error in node node1: node error'' (ErrorNew ''node error'')),
           calls = [(''node1'', input)],
           receiver = \<lparr>graph = build test_error_in_node\<rparr>\<rparr>"
  by (simp add: Invoke_def test_error_in_node_def builder_defs node_fn_defs invoke_loop.simps
      loop_body_def END_def)

theorem Invoke_leaves_graph_witness:
  "Invoke \<lparr>graph = build linear_graph\<rparr> () input =
     Some \<lparr>ret_state = Slice [TextParts ChatMessageTypeHuman ''Input'',
                              TextParts ChatMessageTypeAI ''Node 1'',
                              TextParts ChatMessageTypeAI ''Node 2''],
           ret_err = None,
           calls = [(''n1'', input),
                    (''n2'', append_slice input (TextParts ChatMessageTypeAI ''Node 1'')),
                    (END, append_slice (append_slice input (TextParts ChatMessageTypeAI ''Node 1''))
                            (TextParts ChatMessageTypeAI ''Node 2''))],
           receiver = \<lparr>graph = build linear_graph\<rparr>\<rparr> \<and>
   Invoke \<lparr>graph = build test_error_in_node\<rparr> () input =
     Some \<lparr>ret_state = NilSlice,
           ret_err = Some (Errorf ''error in node node1: node error'' (ErrorNew ''node error'')),
           calls = [(''node1'', input)],
           receiver = \<lparr>graph = build test_error_in_node\<rparr>\<rparr> \<and>
   nodes (graph (receiver \<lparr>ret_state = NilSlice,
           ret_err = Some (Errorf ''error in node node1: node error'' (ErrorNew ''node error'')),
           calls = [(''node1'', input)],
           receiver = \<lparr>graph = build test_error_in_node\<rparr>\<rparr>))
     = nodes (build test_error_in_node) \<and>
   edges (graph (receiver \<lparr>ret_state = NilSlice,
           ret_err = Some (Errorf ''error in node node1: node error'' (ErrorNew ''node error'')),
           calls = [(''node1'', input)],
           receiver = \<lparr>graph = build test_error_in_node\<rparr>\<rparr>))
     = edges (build test_error_in_node) \<and>
   entryPoint (graph (receiver \<lparr>ret_state = NilSlice,
           ret_err = Some (Errorf ''error in node node1: node error'' (ErrorNew ''node error'')),
           calls = [(''node1'', input)],
           receiver = \<lparr>graph = build test_error_in_node\<rparr>\<rparr>))
     = entryPoint (build test_error_in_node)"
  using Invoke_leaves_graph [OF Invoke_linear_graph] Invoke_leaves_graph [OF Invoke_test_error_in_node]
    Invoke_linear_graph Invoke_test_error_in_node
  by simp

theorem Invoke_END_witness:
  "pass \<lparr>graph = build end_edge_graph\<rparr> () input (Suc 0) =
     Some (append_slice input (TextParts ChatMessageTypeAI ''Node 1''), END, [(''n1'', input)]) \<and>
   nodes (graph \<lparr>graph = build end_edge_graph\<rparr>) END =
     Some \<lparr>Name = END, Function = appends ChatMessageTypeAI ''Done''\<rparr> \<and>
   Function \<lparr>Name = END, Function = appends ChatMessageTypeAI ''Done''\<rparr> ()
       (append_slice input (TextParts ChatMessageTypeAI ''Node 1'')) =
     (Slice [TextParts ChatMessageTypeHuman ''Input'', TextParts ChatMessageTypeAI ''Node 1'',
             TextParts ChatMessageTypeAI ''Done''], None) \<and>
   edges (graph \<lparr>graph = build end_edge_graph\<rparr>) =
     [\<lparr>From = END, To = ''n1''\<rparr>, \<lparr>From = ''n1'', To = END\<rparr>] \<and>
   Invoke \<lparr>graph = build end_edge_graph\<rparr> () input =
     Some \<lparr>ret_state = Slice [TextParts ChatMessageTypeHuman ''Input'',
                              TextParts ChatMessageTypeAI ''Node 1'',
                              TextParts ChatMessageTypeAI ''Done''],
           ret_err = None,
           calls = [(''n1'', input)] @
                   [(END, append_slice input (TextParts ChatMessageTypeAI ''Node 1''))],
           receiver = \<lparr>graph = build end_edge_graph\<rparr>\<rparr>"
proof -
  let ?r = "\<lparr>graph = build end_edge_graph\<rparr>"
  let ?node = "\<lparr>Name = END, Function = appends ChatMessageTypeAI ''Done''\<rparr>"
  let ?s1 = "append_slice input (TextParts ChatMessageTypeAI ''Node 1'')"
  let ?s2 = "Slice [TextParts ChatMessageTypeHuman ''Input'', TextParts ChatMessageTypeAI ''Node 1'',
                    TextParts ChatMessageTypeAI ''Done'']"
  have p: "pass ?r () input (Suc 0) = Some (?s1, END, [(''n1'', input)])"
    by (simp add: end_edge_graph_def builder_defs node_fn_defs loop_body_def END_def)
  have n: "nodes (graph ?r) END = Some ?node"
    by (simp add: end_edge_graph_def builder_defs END_def)
  have f: "Function ?node () ?s1 = (?s2, None)"
    by (simp add: node_fn_defs)
  have e: "edges (graph ?r) = [\<lparr>From = END, To = ''n1''\<rparr>, \<lparr>From = ''n1'', To = END\<rparr>]"
    by (simp add: end_edge_graph_def builder_defs)
  from p n f e Invoke_END [OF p n f] show ?thesis by blast
qed

theorem Invoke_node_error_witness:
  "pass \<lparr>graph = build test_error_in_node\<rparr> () input 0 = Some (input, ''node1'', []) \<and>
   nodes (graph \<lparr>graph = build test_error_in_node\<rparr>) ''node1'' =
     Some \<lparr>Name = ''node1'', Function = fails ''node error''\<rparr> \<and>
   Function \<lparr>Name = ''node1'', Function = fails ''node error''\<rparr> () input =
     (NilSlice, Some (ErrorNew ''node error'')) \<and>
   Invoke \<lparr>graph = build test_error_in_node\<rparr> () input =
     Some \<lparr>ret_state = NilSlice,
           ret_err = Some (Errorf ''error in node node1: node error'' (ErrorNew ''node error'')),
           calls = [(''node1'', input)],
           receiver = \<lparr>graph = build test_error_in_node\<rparr>\<rparr>"
proof -
  let ?r = "\<lparr>graph = build test_error_in_node\<rparr>"
  let ?node = "\<lparr>Name = ''node1'', Function = fails ''node error''\<rparr>"
  have p: "pass ?r () input 0 = Some (input, ''node1'', [])"
    by (simp add: test_error_in_node_def builder_defs)
  have n: "nodes (graph ?r) ''node1'' = Some ?node"
    by (simp add: test_error_in_node_def builder_defs)
  have f: "Function ?node () input = (NilSlice, Some (ErrorNew ''node error''))"
    by (simp add: node_fn_defs)
  from p n f Invoke_node_error [OF p n f] show ?thesis by simp
qed

theorem Invoke_node_not_found_witness:
  "entryPoint (build test_simple_graph) \<noteq> '''' \<and>
   pass \<lparr>graph = build test_simple_graph\<rparr> () input (Suc (Suc 0)) =
     Some (append_slice (append_slice input (TextParts ChatMessageTypeAI ''Node 1''))
             (TextParts ChatMessageTypeAI ''Node 2''),
           END,
           [(''node1'', input),
            (''node2'', append_slice input (TextParts ChatMessageTypeAI ''Node 1''))]) \<and>
   nodes (build test_simple_graph) END = None \<and>
   Compile (build test_simple_graph) = (Some \<lparr>graph = build test_simple_graph\<rparr>, None) \<and>
   Invoke \<lparr>graph = build test_simple_graph\<rparr> () input =
     Some \<lparr>ret_state = NilSlice,
           ret_err = Some (Errorf ''node not found: END'' ErrNodeNotFound),
           calls = [(''node1'', input),
                    (''node2'', append_slice input (TextParts ChatMessageTypeAI ''Node 1''))],
           receiver = \<lparr>graph = build test_simple_graph\<rparr>\<rparr>"
proof -
  let ?g = "build test_simple_graph"
  let ?s1 = "append_slice input (TextParts ChatMessageTypeAI ''Node 1'')"
  let ?s2 = "append_slice ?s1 (TextParts ChatMessageTypeAI ''Node 2'')"
  have s: "entryPoint ?g \<noteq> ''''"
    by (simp add: test_simple_graph_def builder_defs)
  have p: "pass \<lparr>graph = ?g\<rparr> () input (Suc (Suc 0)) =
             Some (?s2, END, [(''node1'', input), (''node2'', ?s1)])"
    by (simp add: test_simple_graph_def builder_defs node_fn_defs loop_body_def END_def)
  have n: "nodes ?g END = None"
    by (simp add: test_simple_graph_def builder_defs END_def)
  from s p n Invoke_node_not_found [OF s p n] show ?thesis by (simp add: END_def)
qed

theorem Invoke_no_outgoing_edge_witness:
  "pass \<lparr>graph = build test_no_outgoing_edge\<rparr> () input 0 = Some (input, ''node1'', []) \<and>
   ''node1'' \<noteq> END \<and>
   nodes (graph \<lparr>graph = build test_no_outgoing_edge\<rparr>) ''node1'' =
     Some \<lparr>Name = ''node1'', Function = passthrough\<rparr> \<and>
   Function \<lparr>Name = ''node1'', Function = passthrough\<rparr> () input = (input, None) \<and>
   edges (graph \<lparr>graph = build test_no_outgoing_edge\<rparr>) = [] \<and>
   Invoke \<lparr>graph = build test_no_outgoing_edge\<rparr> () input =
     Some \<lparr>ret_state = NilSlice,
           ret_err = Some (Errorf ''no outgoing edge found for node: node1'' ErrNoOutgoingEdge),
           calls = [(''node1'', input)],
           receiver = \<lparr>graph = build test_no_outgoing_edge\<rparr>\<rparr>"
proof -
  let ?r = "\<lparr>graph = build test_no_outgoing_edge\<rparr>"
  let ?node = "\<lparr>Name = ''node1'', Function = passthrough\<rparr> :: (unit, MessageContent) Node"
  have p: "pass ?r () input 0 = Some (input, ''node1'', [])"
    by (simp add: test_no_outgoing_edge_def builder_defs)
  have c: "''node1'' \<noteq> END"
    by (simp add: END_def)
  have n: "nodes (graph ?r) ''node1'' = Some ?node"
    by (simp add: test_no_outgoing_edge_def builder_defs)
  have f: "Function ?node () input = (input, None)"
    by (simp add: node_fn_defs)
  have e: "edges (graph ?r) = []"
    by (simp add: test_no_outgoing_edge_def builder_defs)
  then have b: "\<forall>e \<in> set (edges (graph ?r)). From e \<noteq> ''node1''"
    by simp
  from p c n f e Invoke_no_outgoing_edge [OF p c n f b] show ?thesis by simp
qed

theorem Invoke_first_edge_witness:
  "pass \<lparr>graph = build two_edges_graph\<rparr> () input 0 = Some (input, ''n1'', []) \<and>
   ''n1'' \<noteq> END \<and>
   nodes (graph \<lparr>graph = build two_edges_graph\<rparr>) ''n1'' =
     Some \<lparr>Name = ''n1'', Function = appends ChatMessageTypeAI ''Node 1''\<rparr> \<and>
   Function \<lparr>Name = ''n1'', Function = appends ChatMessageTypeAI ''Node 1''\<rparr> () input =
     (append_slice input (TextParts ChatMessageTypeAI ''Node 1''), None) \<and>
   edges (graph \<lparr>graph = build two_edges_graph\<rparr>) =
     [\<lparr>From = ''n2'', To = END\<rparr>] @ \<lparr>From = ''n1'', To = ''n2''\<rparr> #
     [\<lparr>From = ''n1'', To = ''n3''\<rparr>, \<lparr>From = ''n3'', To = END\<rparr>] \<and>
   From \<lparr>From = ''n1'', To = ''n2''\<rparr> = ''n1'' \<and>
   From \<lparr>From = ''n2'', To = END\<rparr> \<noteq> ''n1'' \<and>
   pass \<lparr>graph = build two_edges_graph\<rparr> () input (Suc 0) =
     Some (append_slice input (TextParts ChatMessageTypeAI ''Node 1''), ''n2'', [(''n1'', input)])"
proof -
  let ?r = "\<lparr>graph = build two_edges_graph\<rparr>"
  let ?node = "\<lparr>Name = ''n1'', Function = appends ChatMessageTypeAI ''Node 1''\<rparr>
                 :: (unit, MessageContent) Node"
  let ?s1 = "append_slice input (TextParts ChatMessageTypeAI ''Node 1'')"
  let ?es1 = "[\<lparr>From = ''n2'', To = END\<rparr>]"
  let ?e = "\<lparr>From = ''n1'', To = ''n2''\<rparr>"
  let ?es2 = "[\<lparr>From = ''n1'', To = ''n3''\<rparr>, \<lparr>From = ''n3'', To = END\<rparr>]"
  have p: "pass ?r () input 0 = Some (input, ''n1'', [])"
    by (simp add: two_edges_graph_def builder_defs)
  have c: "''n1'' \<noteq> END"
    by (simp add: END_def)
  have n: "nodes (graph ?r) ''n1'' = Some ?node"
    by (simp add: two_edges_graph_def builder_defs END_def)
  have f: "Function ?node () input = (?s1, None)"
    by (simp add: node_fn_defs)
  have e: "edges (graph ?r) = ?es1 @ ?e # ?es2"
    by (simp add: two_edges_graph_def builder_defs)
  have m: "From ?e = ''n1''"
    by simp
  have d: "From \<lparr>From = ''n2'', To = END\<rparr> \<noteq> ''n1''"
    by simp
  then have b: "\<forall>e' \<in> set ?es1. From e' \<noteq> ''n1''"
    by simp
  from Invoke_first_edge [OF p c n f e m b]
  have "pass ?r () input (Suc 0) = Some (?s1, ''n2'', [(''n1'', input)])"
    by simp
  with p c n f e m d show ?thesis by blast
qed

section \<open>Linear graphs\<close>

lemma follows_unique:
  "follows es p \<Longrightarrow> follows es q \<Longrightarrow> hd p = hd q \<Longrightarrow> p = q"
proof (induction es p arbitrary: q rule: follows.induct)
  case (1 es)
  then show ?case by simp
next
  case (2 es x)
  then show ?case by (cases "(es, q)" rule: follows.cases) auto
next
  case (3 es x y p)
  from "3.prems" obtain q' where q: "q = x # y # q'" and f: "follows es (y # q')"
    by (cases "(es, q)" rule: follows.cases) (auto split: option.splits)
  from "3.IH" [OF _ f] "3.prems" q show ?case by simp
qed

lemma invoke_loop_follows:
  "follows (edges (graph r)) p \<Longrightarrow>
   compose_functions (nodes (graph r)) ctx p state = Some state' \<Longrightarrow>
   \<exists>out. invoke_loop r ctx state (hd p) log = Some out \<and>
         ret_state out = state' \<and> ret_err out = None \<and>
         map fst (calls out) = map fst log @ p"
proof (induction "edges (graph r)" p arbitrary: state log rule: follows.induct)
  case 1
  then show ?case by simp
next
  case (2 x)
  then obtain node where n: "nodes (graph r) END = Some node"
    and f: "Function node ctx state = (state', None)"
    by (auto split: option.splits prod.splits)
  from 2 have x: "x = END" by simp
  from invoke_loop_Return [OF loop_body_END [OF n f]] x show ?case by simp
next
  case (3 x y p)
  from "3.prems" obtain e where x: "x \<noteq> END"
    and e: "find (\<lambda>e. From e = x) (edges (graph r)) = Some e" and y: "To e = y"
    and rest: "follows (edges (graph r)) (y # p)"
    by (auto split: option.splits)
  from "3.prems" obtain node s1 where n: "nodes (graph r) x = Some node"
    and f: "Function node ctx state = (s1, None)"
    and c: "compose_functions (nodes (graph r)) ctx (y # p) s1 = Some state'"
    by (auto split: option.splits prod.splits)
  from e y have s: "scan_edges (edges (graph r)) x = (y, True)"
    by (simp add: scan_edges_find)
  from "3.hyps" [OF rest c, of "log @ [(x, state)]"]
    invoke_loop_Continue [OF loop_body_next [OF n f x s], of log]
  show ?case by simp
qed

text \<open>
  C1: in a graph (all of whose edges are static), when \<open>p\<close> is the path that following the
  edges from the entry point to \<open>END\<close> gives, and the functions of the nodes of \<open>p\<close> compose,
  left to right, to take \<open>S\<close> to \<open>S'\<close>, then \<open>Invoke\<close> on \<open>S\<close> calls the functions of exactly
  the nodes of \<open>p\<close>, in that order, and returns \<open>S'\<close> with no error.  In particular, on the
  graph of nodes \<open>n1\<close>, \<open>n2\<close> and a passthrough \<open>END\<close>, edges from \<open>n1\<close> to \<open>n2\<close> and from
  \<open>n2\<close> to \<open>END\<close>, and entry point \<open>n1\<close>, the input of one human message \<open>Input\<close> gives
  that message followed by the AI messages \<open>Node 1\<close> and \<open>Node 2\<close>, with no error.
\<close>

theorem Invoke_follows_path:
  "(follows (edges (graph r)) p \<and> hd p = entryPoint (graph r) \<and>
    compose_functions (nodes (graph r)) ctx p S = Some S' \<longrightarrow>
    (\<exists>out. Invoke r ctx S = Some out \<and> ret_state out = S' \<and> ret_err out = None \<and>
           map fst (calls out) = p)) \<and>
   (\<exists>out. Invoke \<lparr>graph = build linear_graph\<rparr> () (Slice [TextParts ChatMessageTypeHuman ''Input''])
            = Some out \<and>
          ret_state out = Slice [TextParts ChatMessageTypeHuman ''Input'',
                                 TextParts ChatMessageTypeAI ''Node 1'',
                                 TextParts ChatMessageTypeAI ''Node 2''] \<and>
          ret_err out = None \<and>
          map fst (calls out) = [''n1'', ''n2'', END])"
proof (intro conjI impI)
  assume "follows (edges (graph r)) p \<and> hd p = entryPoint (graph r) \<and>
          compose_functions (nodes (graph r)) ctx p S = Some S'"
  with invoke_loop_follows [of r p ctx S S' "[]"]
  show "\<exists>out. Invoke r ctx S = Some out \<and> ret_state out = S' \<and> ret_err out = None \<and>
              map fst (calls out) = p"
    by (simp add: Invoke_def)
next
  from Invoke_linear_graph
  show "\<exists>out. Invoke \<lparr>graph = build linear_graph\<rparr> () (Slice [TextParts ChatMessageTypeHuman ''Input''])
                = Some out \<and>
              ret_state out = Slice [TextParts ChatMessageTypeHuman ''Input'',
                                     TextParts ChatMessageTypeAI ''Node 1'',
                                     TextParts ChatMessageTypeAI ''Node 2''] \<and>
              ret_err out = None \<and>
              map fst (calls out) = [''n1'', ''n2'', END]"
    by (simp add: input_def)
qed

theorem Invoke_follows_path_witness:
  "follows (edges (graph \<lparr>graph = build two_edges_graph\<rparr>)) [''n1'', ''n2'', END] \<and>
   hd [''n1'', ''n2'', END] = entryPoint (graph \<lparr>graph = build two_edges_graph\<rparr>) \<and>
   compose_functions (nodes (graph \<lparr>graph = build two_edges_graph\<rparr>)) () [''n1'', ''n2'', END] input =
     Some (Slice [TextParts ChatMessageTypeHuman ''Input'', TextParts ChatMessageTypeAI ''Node 1'',
                  TextParts ChatMessageTypeAI ''Node 2'']) \<and>
   (\<exists>out. Invoke \<lparr>graph = build two_edges_graph\<rparr> () input = Some out \<and>
          ret_state out = Slice [TextParts ChatMessageTypeHuman ''Input'',
                                 TextParts ChatMessageTypeAI ''Node 1'',
                                 TextParts ChatMessageTypeAI ''Node 2''] \<and>
          ret_err out = None \<and>
          map fst (calls out) = [''n1'', ''n2'', END])"
proof -
  let ?r = "\<lparr>graph = build two_edges_graph\<rparr>"
  let ?p = "[''n1'', ''n2'', END]"
  let ?S' = "Slice [TextParts ChatMessageTypeHuman ''Input'', TextParts ChatMessageTypeAI ''Node 1'',
                    TextParts ChatMessageTypeAI ''Node 2'']"
  have a: "follows (edges (graph ?r)) ?p"
    by (simp add: two_edges_graph_def builder_defs END_def)
  have b: "hd ?p = entryPoint (graph ?r)"
    by (simp add: two_edges_graph_def builder_defs)
  have c: "compose_functions (nodes (graph ?r)) () ?p input = Some ?S'"
    by (simp add: two_edges_graph_def builder_defs node_fn_defs END_def)
  from a b c Invoke_follows_path [of ?r ?p "()" input ?S'] show ?thesis by blast
qed

section \<open>Routing by a conditional edge\<close>

lemma execution_loop_Next:
  "execution_step b ctx state current log = Next state' current' log' \<Longrightarrow>
   execution_loop b ctx state current log = execution_loop b ctx state' current' log'"
  by (subst execution_loop.simps) simp


subsection \<open>The first conditional edge of a node\<close>






text \<open>
  Where the resolution stands beside a plain first match over all edges: it gives what the
  first edge out of \<open>current\<close> gives, except when that edge is static and a conditional edge
  out of \<open>current\<close> was registered after it.
\<close>

lemma resolve_edge_first_match:
  "resolve_edge es ctx state current =
     (case find (\<lambda>e. edge_From e = current) es of
        None \<Rightarrow> None
      | Some e \<Rightarrow>
          (case edge_To e of
             Conditional routingFn \<Rightarrow> Some (routingFn ctx state)
           | Static to \<Rightarrow>
               (case first_conditional es current of
                  None \<Rightarrow> Some to
                | Some routingFn \<Rightarrow> Some (routingFn ctx state))))"
  by (induction es) (auto simp add: resolve_edge_def split: target.splits option.splits)

subsection \<open>On static edges the execution of the specification is that of \<^verbatim>\<open>graph.go\<close>\<close>

lemma first_conditional_static:
  "first_conditional (map (\<lambda>e. \<lparr>edge_From = From e, edge_To = Static (To e)\<rparr>) es) current = None"
  by (induction es) auto

lemma first_static_static:
  "first_static (map (\<lambda>e. \<lparr>edge_From = From e, edge_To = Static (To e)\<rparr>) es) current =
     (case scan_edges es current of (next, found) \<Rightarrow> if found then Some next else None)"
  by (induction es) auto

lemma resolve_edge_static:
  "resolve_edge (map (\<lambda>e. \<lparr>edge_From = From e, edge_To = Static (To e)\<rparr>) es) ctx state current =
     (case scan_edges es current of (next, found) \<Rightarrow> if found then Some next else None)"
  by (simp add: resolve_edge_def first_conditional_static first_static_static)

lemma scan_edges_not_found:
  "scan_edges es current = (next, False) \<Longrightarrow> next = current"
  by (induction es) (auto split: if_splits)

lemma execution_step_static:
  "as_iteration r (execution_step (as_builder (graph r)) ctx state current log) =
     loop_body r ctx state current log"
  by (auto simp add: execution_step_def loop_body_def as_builder_def resolve_edge_static Let_def
      split: option.splits prod.splits dest: scan_edges_not_found)

lemma execution_loop_static:
  assumes "execution_loop (as_builder (graph r)) ctx state current log = Some st"
  shows "\<exists>out. as_outcome r st = Some out \<and> invoke_loop r ctx state current log = Some out"
  using assms
proof (induction "as_builder (graph r)" ctx state current log st
    rule: execution_loop.raw_induct [rotated 1, consumes 1])
  case (1 loop ctx state current log st)
  show ?case
  proof (cases "execution_step (as_builder (graph r)) ctx state current log")
    case (Next state' current' log')
    with execution_step_static [of r ctx state current log]
    have "loop_body r ctx state current log = Continue state' current' log'" by simp
    from invoke_loop_Continue [OF this] 1 Next show ?thesis by simp
  next
    case (Finished state' log')
    with execution_step_static [of r ctx state current log]
    have "loop_body r ctx state current log =
            Return \<lparr>ret_state = state', ret_err = None, calls = log', receiver = r\<rparr>" by simp
    from invoke_loop_Return [OF this] 1 Finished show ?thesis by auto
  next
    case (Failed f log')
    with execution_step_static [of r ctx state current log]
    have "loop_body r ctx state current log =
            Return \<lparr>ret_state = NilSlice, ret_err = Some (failure_error f), calls = log',
                    receiver = r\<rparr>" by simp
    from invoke_loop_Return [OF this] 1 Failed show ?thesis by auto
  qed
qed

lemma invoke_loop_static:
  assumes "invoke_loop r ctx state current log = Some out"
  shows "\<exists>st. execution_loop (as_builder (graph r)) ctx state current log = Some st \<and>
              as_outcome r st = Some out"
  using assms
proof (induction r ctx state current log out rule: invoke_loop.raw_induct [rotated 1, consumes 1])
  case (1 loop r ctx state current log out)
  show ?case
  proof (cases "execution_step (as_builder (graph r)) ctx state current log")
    case (Next state' current' log')
    with execution_step_static [of r ctx state current log]
    have "loop_body r ctx state current log = Continue state' current' log'" by simp
    with 1 execution_loop_Next [OF Next] show ?thesis by simp
  next
    case (Finished state' log')
    with execution_step_static [of r ctx state current log]
    have "loop_body r ctx state current log =
            Return \<lparr>ret_state = state', ret_err = None, calls = log', receiver = r\<rparr>" by simp
    with 1 Finished show ?thesis by (subst execution_loop.simps) simp
  next
    case (Failed f log')
    with execution_step_static [of r ctx state current log]
    have "loop_body r ctx state current log =
            Return \<lparr>ret_state = NilSlice, ret_err = Some (failure_error f), calls = log',
                    receiver = r\<rparr>" by simp
    with 1 Failed show ?thesis by (subst execution_loop.simps) simp
  qed
qed

lemma execution_static:
  "Invoke r ctx messages =
     (case execution (as_builder (graph r)) ctx messages of
        None \<Rightarrow> None
      | Some st \<Rightarrow> as_outcome r st)"
proof (cases "execution (as_builder (graph r)) ctx messages")
  case None
  show ?thesis
  proof (cases "Invoke r ctx messages")
    case (Some out)
    with invoke_loop_static [of r ctx messages "entryPoint (graph r)" "[]" out] None
    show ?thesis by (simp add: Invoke_def execution_def as_builder_def)
  qed (simp add: None)
next
  case (Some st)
  with execution_loop_static [of r ctx messages "entryPoint (graph r)" "[]" st]
  show ?thesis by (auto simp add: Invoke_def execution_def as_builder_def)
qed

subsection \<open>The next node after a node with a conditional edge\<close>



end
